theory Spec2Isabelle
  imports Main "HOL-Library.Word"
begin

section \<open>Data model\<close>

text \<open>
  Go's \<open>int64\<close> is a 64-bit word read in two's complement: \<open>+\<close> and unary \<open>-\<close> wrap,
  comparisons are the signed ones (\<open><s\<close>, \<open>\<le>s\<close>). \<open>time.Duration\<close> is an \<open>int64\<close>
  count of nanoseconds and \<open>UnixNano()\<close> returns an \<open>int64\<close>.
\<close>

type_synonym int64 = "64 word"

text \<open>
  A cached value has the dynamic type \<open>interface{}\<close>. The code distinguishes, by type
  assertion, \<open>string\<close>, \<open>[]byte\<close> and \<open>int64\<close>; the nil interface fails every
  assertion. Every other dynamic type (structs, \<open>int\<close>, maps, ...) is \<open>VOther\<close>.
  A Go string is a byte sequence and \<open>[]byte(str)\<close> keeps the bytes, so both are
  \<open>string\<close> here (a \<open>char\<close> is one byte).
\<close>

datatype 'a val = VNil | VString string | VBytes string | VInt64 int64 | VOther 'a

text \<open>
  \<open>ErrNotFound\<close> is the package's sentinel; \<open>ErrCannotUnmarshal\<close> is the
  \<open>fmt.Errorf("cannot unmarshal value of type %T", value)\<close> of \<open>GetJSON\<close>; an error
  made outside the package (by \<open>encoding/json\<close>, a fetcher, another backend) is
  \<open>ErrExternal\<close>. Go's \<open>nil\<close> error is \<open>None\<close>.
\<close>

datatype error = ErrNotFound | ErrCannotUnmarshal | ErrExternal string

record 'a item =
  item_value :: "'a val"
  expiration :: int64

text \<open>
  State of the goroutine started by \<open>go store.cleanupExpired()\<close>: it panics at once
  when \<open>time.NewTicker\<close> gets a non-positive interval; otherwise it loops
  (\<open>AtSelect\<close>: it is at its \<open>select\<close>, or in a sweep after which it is there again)
  until it receives from \<open>stop\<close> and returns.
\<close>

datatype reaper = AtSelect | Returned | Panicked

text \<open>
  The store: the map, the sweep interval, and the \<open>stop\<close> channel. The channel is
  unbuffered, so it holds nothing: what matters is whether its only receiver, the reaper,
  is still there. \<open>stop_received\<close> counts the values the reaper has received from it.
\<close>

record 'a MemoryStore =
  items :: "string \<rightharpoonup> 'a item"
  cleanup :: int64
  reaper :: reaper
  stop_received :: nat

section \<open>The in-process store\<close>

text \<open>
  Every operation that reads the clock takes the reading \<open>now\<close>
  (\<open>time.Now().UnixNano()\<close>) as an argument. The \<open>ctx\<close> argument is unused by the
  store and left out. Each operation returns its Go result together with the store after it.
\<close>

definition isExpired :: "'a item \<Rightarrow> int64 \<Rightarrow> bool" where
  "isExpired i now = (if expiration i = 0 then False else expiration i <s now)"

definition NewMemoryStore :: "int64 \<Rightarrow> 'a MemoryStore" where
  "NewMemoryStore cleanupInterval =
     \<lparr>items = Map.empty, cleanup = cleanupInterval,
      reaper = (if 0 <s cleanupInterval then AtSelect else Panicked),
      stop_received = 0\<rparr>"

definition MemoryStore_Get ::
  "'a MemoryStore \<Rightarrow> int64 \<Rightarrow> string \<Rightarrow> (error + 'a val) \<times> 'a MemoryStore" where
  "MemoryStore_Get m now key =
     (case items m key of
        None \<Rightarrow> (Inl ErrNotFound, m)
      | Some it \<Rightarrow>
          if isExpired it now then (Inl ErrNotFound, m)
          else (Inr (item_value it), m))"

text \<open>
  \<open>time.Now().Add(ttl).UnixNano()\<close> is the sum of two \<open>int64\<close> nanosecond counts,
  computed in \<open>int64\<close>: it wraps when the instant is beyond the year 2262.
\<close>

definition MemoryStore_Set ::
  "'a MemoryStore \<Rightarrow> int64 \<Rightarrow> string \<Rightarrow> 'a val \<Rightarrow> int64 \<Rightarrow> error option \<times> 'a MemoryStore" where
  "MemoryStore_Set m now key v ttl =
     (let expiration = (if 0 <s ttl then now + ttl else 0)
      in (None, m\<lparr>items := (items m)(key \<mapsto> \<lparr>item_value = v, expiration = expiration\<rparr>)\<rparr>))"

definition MemoryStore_Delete ::
  "'a MemoryStore \<Rightarrow> string \<Rightarrow> error option \<times> 'a MemoryStore" where
  "MemoryStore_Delete m key = (None, m\<lparr>items := (items m)(key := None)\<rparr>)"

definition MemoryStore_Has ::
  "'a MemoryStore \<Rightarrow> int64 \<Rightarrow> string \<Rightarrow> bool \<times> 'a MemoryStore" where
  "MemoryStore_Has m now key =
     (case items m key of
        None \<Rightarrow> (False, m)
      | Some it \<Rightarrow> (\<not> isExpired it now, m))"

definition MemoryStore_Increment ::
  "'a MemoryStore \<Rightarrow> int64 \<Rightarrow> string \<Rightarrow> int64 \<Rightarrow> (int64 \<times> error option) \<times> 'a MemoryStore" where
  "MemoryStore_Increment m now key delta =
     (let current =
            (case items m key of
               None \<Rightarrow> 0
             | Some it \<Rightarrow>
                 if \<not> isExpired it now
                 then (case item_value it of VInt64 v \<Rightarrow> v | _ \<Rightarrow> 0)
                 else 0);
          newValue = current + delta
      in ((newValue, None),
          m\<lparr>items := (items m)(key \<mapsto> \<lparr>item_value = VInt64 newValue, expiration = 0\<rparr>)\<rparr>))"

definition MemoryStore_Decrement ::
  "'a MemoryStore \<Rightarrow> int64 \<Rightarrow> string \<Rightarrow> int64 \<Rightarrow> (int64 \<times> error option) \<times> 'a MemoryStore" where
  "MemoryStore_Decrement m now key delta = MemoryStore_Increment m now key (- delta)"

definition MemoryStore_Clear :: "'a MemoryStore \<Rightarrow> error option \<times> 'a MemoryStore" where
  "MemoryStore_Clear m = (None, m\<lparr>items := Map.empty\<rparr>)"

text \<open>
  One tick of \<open>cleanupExpired\<close>: the loop visits every key of the map once and reads
  the clock for each item it visits; \<open>clock key\<close> is the reading taken at \<open>key\<close>.
\<close>

definition cleanupExpired_tick ::
  "'a MemoryStore \<Rightarrow> (string \<Rightarrow> int64) \<Rightarrow> 'a MemoryStore" where
  "cleanupExpired_tick m clock =
     m\<lparr>items := (\<lambda>key. case items m key of
                          None \<Rightarrow> None
                        | Some it \<Rightarrow> if isExpired it (clock key) then None else Some it)\<rparr>"

text \<open>
  \<open>Close\<close> is \<open>m.stop <- true; return nil\<close> on an unbuffered channel: the send
  completes only in a rendezvous with a receiver. The one receiver is the reaper at its
  \<open>select\<close>, which then returns. With no receiver left the send never completes:
  \<open>None\<close> is "\<open>Close\<close> does not return".
\<close>

definition MemoryStore_Close :: "'a MemoryStore \<Rightarrow> (error option \<times> 'a MemoryStore) option" where
  "MemoryStore_Close m =
     (case reaper m of
        AtSelect \<Rightarrow> Some (None, m\<lparr>reaper := Returned, stop_received := Suc (stop_received m)\<rparr>)
      | Returned \<Rightarrow> None
      | Panicked \<Rightarrow> None)"

section \<open>The Store contract and the Cache facade\<close>

text \<open>
  \<open>Store\<close> is the interface every backend implements; a backend is its table of
  methods over the backend's own state \<open>'s\<close>. A backend other than the in-process one
  can fail in any method. \<open>Close\<close> may not return (\<open>None\<close>).
\<close>

record ('s, 'a) Store =
  store_Get :: "'s \<Rightarrow> int64 \<Rightarrow> string \<Rightarrow> (error + 'a val) \<times> 's"
  store_Set :: "'s \<Rightarrow> int64 \<Rightarrow> string \<Rightarrow> 'a val \<Rightarrow> int64 \<Rightarrow> error option \<times> 's"
  store_Delete :: "'s \<Rightarrow> string \<Rightarrow> error option \<times> 's"
  store_Has :: "'s \<Rightarrow> int64 \<Rightarrow> string \<Rightarrow> bool \<times> 's"
  store_Increment :: "'s \<Rightarrow> int64 \<Rightarrow> string \<Rightarrow> int64 \<Rightarrow> (int64 \<times> error option) \<times> 's"
  store_Decrement :: "'s \<Rightarrow> int64 \<Rightarrow> string \<Rightarrow> int64 \<Rightarrow> (int64 \<times> error option) \<times> 's"
  store_Clear :: "'s \<Rightarrow> error option \<times> 's"
  store_Close :: "'s \<Rightarrow> (error option \<times> 's) option"

text \<open>\<open>*MemoryStore\<close> as a \<open>Store\<close>.\<close>

definition memory_Store :: "('a MemoryStore, 'a) Store" where
  "memory_Store =
     \<lparr>store_Get = MemoryStore_Get, store_Set = MemoryStore_Set,
      store_Delete = MemoryStore_Delete, store_Has = MemoryStore_Has,
      store_Increment = MemoryStore_Increment, store_Decrement = MemoryStore_Decrement,
      store_Clear = MemoryStore_Clear, store_Close = MemoryStore_Close\<rparr>"

record ('s, 'a) Cache =
  store :: "('s, 'a) Store"
  defaultTTL :: int64

text \<open>
  The \<open>Cache\<close> that \<open>New\<close> builds for \<open>BackendMemory\<close>, and the state of its
  store: \<open>NewMemoryStore(config.CleanupInterval)\<close> with \<open>config.DefaultTTL\<close>.
\<close>

definition New_memory :: "int64 \<Rightarrow> ('a MemoryStore, 'a) Cache" where
  "New_memory ttl = \<lparr>store = memory_Store, defaultTTL = ttl\<rparr>"

text \<open>
  \<open>encoding/json\<close> is a library outside the repository: \<open>json.Marshal\<close> and
  \<open>json.Unmarshal\<close> are parameters. \<open>Unmarshal data dest\<close> returns its error and
  the destination after the call (\<open>dest\<close> is a pointer the call writes through).
\<close>

record ('a, 'd) json =
  Marshal :: "'a val \<Rightarrow> error + string"
  Unmarshal :: "string \<Rightarrow> 'd \<Rightarrow> error option \<times> 'd"

definition Cache_Get ::
  "('s, 'a) Cache \<Rightarrow> 's \<Rightarrow> int64 \<Rightarrow> string \<Rightarrow> (error + 'a val) \<times> 's" where
  "Cache_Get c s now key = store_Get (store c) s now key"

definition Cache_SetWithTTL ::
  "('s, 'a) Cache \<Rightarrow> 's \<Rightarrow> int64 \<Rightarrow> string \<Rightarrow> 'a val \<Rightarrow> int64 \<Rightarrow> error option \<times> 's" where
  "Cache_SetWithTTL c s now key v ttl = store_Set (store c) s now key v ttl"

text \<open>
  \<open>GetJSON\<close>: the type assertions in the source's order. \<open>value.(interface{})\<close>
  holds for every value but the nil interface.
\<close>

definition Cache_GetJSON ::
  "('a, 'd) json \<Rightarrow> ('s, 'a) Cache \<Rightarrow> 's \<Rightarrow> int64 \<Rightarrow> string \<Rightarrow> 'd
     \<Rightarrow> (error option \<times> 'd) \<times> 's" where
  "Cache_GetJSON js c s now key dest =
     (case Cache_Get c s now key of
        (Inl err, s') \<Rightarrow> ((Some err, dest), s')
      | (Inr v, s') \<Rightarrow>
          (case v of
             VString str \<Rightarrow> (Unmarshal js str dest, s')
           | VBytes bytes \<Rightarrow> (Unmarshal js bytes dest, s')
           | VNil \<Rightarrow> ((Some ErrCannotUnmarshal, dest), s')
           | _ \<Rightarrow>
               (case Marshal js v of
                  Inl err \<Rightarrow> ((Some err, dest), s')
                | Inr data \<Rightarrow> (Unmarshal js data dest, s'))))"

definition Cache_SetJSON ::
  "('s, 'a) Cache \<Rightarrow> 's \<Rightarrow> int64 \<Rightarrow> string \<Rightarrow> 'a val \<Rightarrow> error option \<times> 's" where
  "Cache_SetJSON c s now key v = Cache_SetWithTTL c s now key v (defaultTTL c)"

text \<open>
  \<open>GetOrSet\<close>: the fetcher is a Go closure and may have effects of its own, so it is a
  function on the state \<open>'w\<close> it closes over. The store is called twice and the clock is
  read at each call: \<open>now_get\<close> and \<open>now_set\<close>. The result is the Go result, the state
  of the store, and the fetcher's state.
\<close>

definition Cache_GetOrSet ::
  "('s, 'a) Cache \<Rightarrow> 's \<Rightarrow> int64 \<Rightarrow> int64 \<Rightarrow> string \<Rightarrow> ('w \<Rightarrow> (error + 'a val) \<times> 'w)
     \<Rightarrow> int64 \<Rightarrow> 'w \<Rightarrow> (error + 'a val) \<times> 's \<times> 'w" where
  "Cache_GetOrSet c s now_get now_set key fetcher ttl w =
     (case Cache_Get c s now_get key of
        (Inr v, s') \<Rightarrow> (Inr v, s', w)
      | (Inl _, s') \<Rightarrow>
          (case fetcher w of
             (Inl err, w') \<Rightarrow> (Inl err, s', w')
           | (Inr v, w') \<Rightarrow>
               (case Cache_SetWithTTL c s' now_set key v ttl of
                  (Some _, s'') \<Rightarrow> (Inr v, s'', w')
                | (None, s'') \<Rightarrow> (Inr v, s'', w'))))"

section \<open>Lookup and expiration\<close>

lemma expiration_nonzero:
  "0 \<le>s (now::int64) \<Longrightarrow> 0 <s (ttl::int64) \<Longrightarrow> now + ttl \<noteq> 0"
proof
  assume n: "0 \<le>s now" and t: "0 <s ttl" and z: "now + ttl = 0"
  have sn: "0 \<le> sint now" using n by (simp add: word_sle_eq)
  have st: "0 < sint ttl" using t by (simp add: word_sless_alt)
  have bn: "sint now < 9223372036854775808" using sint_lt [of now] by simp
  have bt: "sint ttl < 9223372036854775808" using sint_lt [of ttl] by simp
  have "(word_of_int (sint now + sint ttl) :: int64) = now + ttl"
    by (simp only: of_int_add of_int_sint scast_id)
  with z have "(word_of_int (sint now + sint ttl) :: int64) = 0" by simp
  then have "(18446744073709551616::int) dvd sint now + sint ttl"
    by (simp only: word_of_int_eq_0_iff len_bit0 len_num1) simp
  then have "sint now + sint ttl \<le> 0 \<or> 18446744073709551616 \<le> sint now + sint ttl"
    using zdvd_imp_le [of 18446744073709551616 "sint now + sint ttl"] by linarith
  then show False
    using sn st bn bt by linarith
qed

text \<open>
  When \<open>now + ttl\<close> does not overflow \<open>int64\<close>, the expiration instant is not before
  the clock reading of \<open>Set\<close> itself.
\<close>

lemma expiration_in_range:
  assumes "0 \<le>s (now::int64)" and "0 <s (ttl::int64)"
    and "sint now + sint ttl < 9223372036854775808"
  shows "now \<le>s now + ttl"
proof -
  have sn: "0 \<le> sint now" using assms(1) by (simp add: word_sle_eq)
  have st: "0 < sint ttl" using assms(2) by (simp add: word_sless_alt)
  have "sint (now + ttl) = signed_take_bit 63 (sint now + sint ttl)"
    by (simp add: sint_word_ariths)
  also have "\<dots> = sint now + sint ttl"
    using sn st assms(3) by (intro signed_take_bit_int_eq_self) simp_all
  finally show ?thesis
    using st by (simp add: word_sle_eq)
qed

lemma items_Set:
  "items (snd (MemoryStore_Set m now key v ttl)) key =
     Some \<lparr>item_value = v, expiration = (if 0 <s ttl then now + ttl else 0)\<rparr>"
  by (simp add: MemoryStore_Set_def)

lemma Get_lookup:
  "items m key = Some it \<Longrightarrow>
     fst (MemoryStore_Get m now key) = (if isExpired it now then Inl ErrNotFound else Inr (item_value it))"
  by (simp add: MemoryStore_Get_def)

lemma Has_lookup:
  "items m key = Some it \<Longrightarrow> fst (MemoryStore_Has m now key) = (\<not> isExpired it now)"
  by (simp add: MemoryStore_Has_def)

lemma Get_absent: "items m key = None \<Longrightarrow> fst (MemoryStore_Get m now key) = Inl ErrNotFound"
  by (simp add: MemoryStore_Get_def)

lemma Has_absent: "items m key = None \<Longrightarrow> fst (MemoryStore_Has m now key) = False"
  by (simp add: MemoryStore_Has_def)

lemma items_tick:
  "items (cleanupExpired_tick m clock) key =
     (case items m key of None \<Rightarrow> None
      | Some it \<Rightarrow> if isExpired it (clock key) then None else Some it)"
  by (simp add: cleanupExpired_tick_def)

text \<open>
  C1. Set at clock reading \<open>now\<close> with \<open>ttl > 0\<close> stores the expiration instant
  \<open>now + ttl\<close>. Once a later reading \<open>now'\<close> is past that instant, \<open>Get\<close> returns
  \<open>ErrNotFound\<close> and \<open>Has\<close> returns false, although the item is still in the map;
  the same holds after any sweep of the reaper in between. The clock at Set is a reading
  at or after the Unix epoch (\<open>0 \<le>s now\<close>), as \<open>time.Now().UnixNano()\<close> is.
\<close>

theorem C1_lazy_expiration:
  assumes ttl: "0 <s ttl" and epoch: "0 \<le>s now" and passed: "now + ttl <s now'"
  shows "fst (MemoryStore_Get (snd (MemoryStore_Set m now key v ttl)) now' key) = Inl ErrNotFound
       \<and> fst (MemoryStore_Has (snd (MemoryStore_Set m now key v ttl)) now' key) = False
       \<and> items (snd (MemoryStore_Set m now key v ttl)) key
           = Some \<lparr>item_value = v, expiration = now + ttl\<rparr>
       \<and> fst (MemoryStore_Get (cleanupExpired_tick (snd (MemoryStore_Set m now key v ttl)) clock) now' key)
           = Inl ErrNotFound
       \<and> fst (MemoryStore_Has (cleanupExpired_tick (snd (MemoryStore_Set m now key v ttl)) clock) now' key)
           = False"
proof -
  let ?it = "\<lparr>item_value = v, expiration = now + ttl\<rparr>"
  let ?m = "snd (MemoryStore_Set m now key v ttl)"
  have stored: "items ?m key = Some ?it"
    using ttl by (simp add: items_Set)
  have "now + ttl \<noteq> 0"
    using epoch ttl by (rule expiration_nonzero)
  then have expired: "isExpired ?it now'"
    using passed by (simp add: isExpired_def)
  have get: "fst (MemoryStore_Get ?m now' key) = Inl ErrNotFound"
    using expired by (simp add: Get_lookup [OF stored])
  have has: "fst (MemoryStore_Has ?m now' key) = False"
    using expired by (simp add: Has_lookup [OF stored])
  have swept: "items (cleanupExpired_tick ?m clock) key = None
             \<or> items (cleanupExpired_tick ?m clock) key = Some ?it"
    by (simp add: items_tick stored)
  have get': "fst (MemoryStore_Get (cleanupExpired_tick ?m clock) now' key) = Inl ErrNotFound"
    using swept expired by (auto simp: Get_absent Get_lookup)
  have has': "fst (MemoryStore_Has (cleanupExpired_tick ?m clock) now' key) = False"
    using swept expired by (auto simp: Has_absent Has_lookup)
  from get has stored get' has' show ?thesis by simp
qed

theorem C1_lazy_expiration_witness:
  "(0::int64) <s 500 \<and> (0::int64) \<le>s 1000 \<and> (1000::int64) + 500 <s 2000
   \<and> fst (MemoryStore_Get (snd (MemoryStore_Set (NewMemoryStore 60) 1000 ''k'' (VString ''v'') 500)) 2000 ''k'')
       = (Inl ErrNotFound :: error + unit val)
   \<and> fst (MemoryStore_Has (snd (MemoryStore_Set (NewMemoryStore 60) 1000 ''k'' (VString ''v'' :: unit val) 500)) 2000 ''k'')
       = False"
proof -
  have a: "(0::int64) <s 500" by (simp add: word_sless_alt)
  have b: "(0::int64) \<le>s 1000" by (simp add: word_sle_eq)
  have c: "(1000::int64) + 500 <s 2000" by simp
  show ?thesis
    using a b c C1_lazy_expiration [OF a b c, of "NewMemoryStore 60" "''k''" "VString ''v'' :: unit val"]
    by simp
qed

text \<open>
  Where the wrapped sum \<open>now + ttl\<close> is not before the clock, the item is live: \<open>Get\<close>
  returns the value with a nil error and \<open>Has\<close> returns true.
\<close>

lemma Get_after_Set_live:
  assumes ttl: "0 <s ttl" and live: "now' \<le>s now + ttl"
  shows "fst (MemoryStore_Get (snd (MemoryStore_Set m now key v ttl)) now' key) = Inr v
       \<and> fst (MemoryStore_Has (snd (MemoryStore_Set m now key v ttl)) now' key) = True"
proof -
  let ?it = "\<lparr>item_value = v, expiration = now + ttl\<rparr>"
  let ?m = "snd (MemoryStore_Set m now key v ttl)"
  have stored: "items ?m key = Some ?it"
    using ttl by (simp add: items_Set)
  have "\<not> now + ttl <s now'"
    using live by (simp add: signed.not_less)
  then have fresh: "\<not> isExpired ?it now'"
    by (simp add: isExpired_def)
  show ?thesis
    using fresh by (simp add: Get_lookup [OF stored] Has_lookup [OF stored])
qed

text \<open>
  C2. What the code does for a very long TTL: \<open>Set(key, v, time.Duration(math.MaxInt64))\<close>
  at the clock reading 1790000000000000000 (September 2026) computes the expiration
  \<open>now + ttl\<close> in \<open>int64\<close>, where it wraps to the negative instant
  \<open>-7433372036854775809\<close>. The item is stored with that expiration, and at the very same
  clock reading \<open>Get\<close> returns \<open>ErrNotFound\<close> and \<open>Has\<close> returns false, for every
  store, key and value.
\<close>

theorem C2_huge_ttl_expires_at_once:
  "fst (MemoryStore_Get
          (snd (MemoryStore_Set m 1790000000000000000 key v 9223372036854775807))
          1790000000000000000 key) = Inl ErrNotFound
 \<and> fst (MemoryStore_Has
          (snd (MemoryStore_Set m 1790000000000000000 key v 9223372036854775807))
          1790000000000000000 key) = False
 \<and> items (snd (MemoryStore_Set m 1790000000000000000 key v 9223372036854775807)) key
       = Some \<lparr>item_value = v, expiration = - 7433372036854775809\<rparr>"
proof -
  let ?m = "snd (MemoryStore_Set m 1790000000000000000 key v 9223372036854775807)"
  let ?it = "\<lparr>item_value = v, expiration = - 7433372036854775809\<rparr>"
  have ttl: "(0::int64) <s 9223372036854775807"
    by (simp add: word_sless_alt)
  have stored: "items ?m key = Some ?it"
    using ttl by (simp add: items_Set)
  have past: "(- 7433372036854775809 :: int64) <s 1790000000000000000"
    by (simp add: word_sless_alt)
  have expired: "isExpired ?it 1790000000000000000"
    using past by (simp add: isExpired_def)
  show ?thesis
    using expired stored by (simp add: Get_lookup [OF stored] Has_lookup [OF stored])
qed

section \<open>Counters\<close>

lemma Increment_absent:
  "items m key = None \<Longrightarrow> fst (MemoryStore_Increment m now key delta) = (delta, None)"
  by (simp add: MemoryStore_Increment_def)

lemma Increment_expired:
  "items m key = Some it \<Longrightarrow> isExpired it now \<Longrightarrow>
     fst (MemoryStore_Increment m now key delta) = (delta, None)"
  by (simp add: MemoryStore_Increment_def)

lemma Increment_live_int64:
  "items m key = Some it \<Longrightarrow> \<not> isExpired it now \<Longrightarrow> item_value it = VInt64 old \<Longrightarrow>
     fst (MemoryStore_Increment m now key delta) = (old + delta, None)"
  by (simp add: MemoryStore_Increment_def Let_def)

lemma Increment_store:
  "snd (MemoryStore_Increment m now key delta) =
     m\<lparr>items := (items m)(key \<mapsto>
          \<lparr>item_value = VInt64 (fst (fst (MemoryStore_Increment m now key delta))), expiration = 0\<rparr>)\<rparr>"
  by (simp add: MemoryStore_Increment_def Let_def)

text \<open>
  C3, as stated, fails for a live numeric item that is not an \<open>int64\<close>: after
  \<open>Set("n", 5)\<close> with the Go \<open>int\<close> 5, still live, \<open>Increment("n", 1)\<close> returns 1 and
  not 6, because the assertion \<open>item.value.(int64)\<close> fails and the start value stays 0.
\<close>

theorem C3_live_int_starts_from_zero:
  "fst (MemoryStore_Increment
          (snd (MemoryStore_Set (NewMemoryStore 60) 1000 ''n'' (VOther (5::int)) 500))
          1200 ''n'' 1) = (1, None)
 \<and> fst (MemoryStore_Increment
          (snd (MemoryStore_Set (NewMemoryStore 60) 1000 ''n'' (VOther (5::int)) 500))
          1200 ''n'' 1) \<noteq> (6, None)"
proof -
  let ?m = "snd (MemoryStore_Set (NewMemoryStore 60) 1000 ''n'' (VOther (5::int)) 500)"
  let ?it = "\<lparr>item_value = VOther (5::int), expiration = 1500\<rparr>"
  have stored: "items ?m ''n'' = Some ?it"
    by (simp add: items_Set word_sless_alt)
  have live: "\<not> isExpired ?it 1200"
    by (simp add: isExpired_def)
  have "fst (MemoryStore_Increment ?m 1200 ''n'' 1) = (1, None)"
    using stored live by (simp add: MemoryStore_Increment_def)
  then show ?thesis by simp
qed

text \<open>
  C3, amended. \<open>Increment(key, delta)\<close> starts from 0 when the key is absent and equally
  when its item is present but expired, and from \<open>old\<close> when the item is live and its
  value is the \<open>int64\<close> \<open>old\<close>; it returns the sum (in \<open>int64\<close>) with a nil error, and
  the store afterwards differs only at \<open>key\<close>, which holds the returned sum with
  expiration 0 (no expiration), whatever the previous item's expiration was.
\<close>

theorem C3_increment:
  "(items m key = None \<longrightarrow> fst (MemoryStore_Increment m now key delta) = (delta, None))
 \<and> (items m key = Some it \<and> isExpired it now \<longrightarrow>
       fst (MemoryStore_Increment m now key delta) = (delta, None))
 \<and> (items m key = Some it \<and> \<not> isExpired it now \<and> item_value it = VInt64 old \<longrightarrow>
       fst (MemoryStore_Increment m now key delta) = (old + delta, None))
 \<and> snd (MemoryStore_Increment m now key delta) =
       m\<lparr>items := (items m)(key \<mapsto>
          \<lparr>item_value = VInt64 (fst (fst (MemoryStore_Increment m now key delta))), expiration = 0\<rparr>)\<rparr>"
  using Increment_absent [of m key now delta] Increment_expired [of m key it now delta]
    Increment_live_int64 [of m key it now old delta] Increment_store [of m now key delta]
  by blast

theorem C3_increment_witness:
  "fst (MemoryStore_Increment (NewMemoryStore 60 :: unit MemoryStore) 1000 ''k'' 5) = (5, None)
 \<and> fst (MemoryStore_Increment
          (snd (MemoryStore_Set (NewMemoryStore 60 :: unit MemoryStore) 1000 ''k'' (VInt64 7) 500))
          2000 ''k'' 5) = (5, None)
 \<and> fst (MemoryStore_Increment
          (snd (MemoryStore_Set (NewMemoryStore 60 :: unit MemoryStore) 1000 ''k'' (VInt64 7) 500))
          1200 ''k'' 5) = (12, None)"
proof -
  let ?m0 = "NewMemoryStore 60 :: unit MemoryStore"
  let ?m1 = "snd (MemoryStore_Set ?m0 1000 ''k'' (VInt64 7) 500)"
  let ?it = "\<lparr>item_value = VInt64 7 :: unit val, expiration = 1500\<rparr>"
  have absent: "items ?m0 ''k'' = None"
    by (simp add: NewMemoryStore_def)
  have stored: "items ?m1 ''k'' = Some ?it"
    by (simp add: items_Set word_sless_alt)
  have old: "isExpired ?it 2000" and live: "\<not> isExpired ?it 1200"
    by (simp_all add: isExpired_def)
  have v: "item_value ?it = VInt64 7" by simp
  have 1: "fst (MemoryStore_Increment ?m0 1000 ''k'' 5) = (5, None)"
    using C3_increment [of ?m0 "''k''" 1000 5] absent by blast
  have 2: "fst (MemoryStore_Increment ?m1 2000 ''k'' 5) = (5, None)"
    using C3_increment [of ?m1 "''k''" 2000 5 ?it] stored old by blast
  have "fst (MemoryStore_Increment ?m1 1200 ''k'' 5) = (7 + 5, None)"
    using C3_increment [of ?m1 "''k''" 1200 5 ?it 7] stored live v by blast
  then have 3: "fst (MemoryStore_Increment ?m1 1200 ''k'' 5) = (12, None)" by simp
  from 1 2 3 show ?thesis by simp
qed

text \<open>
  C7. When \<open>key\<close> holds a live item whose value is not an \<open>int64\<close>,
  \<open>Increment(key, delta)\<close> starts from 0: it returns \<open>delta\<close> with a nil error and
  replaces the item by one that holds \<open>delta\<close> and never expires.
\<close>

theorem C7_increment_non_int64:
  assumes "items m key = Some it" and "\<not> isExpired it now"
    and "\<forall>n. item_value it \<noteq> VInt64 n"
  shows "MemoryStore_Increment m now key delta =
           ((delta, None),
            m\<lparr>items := (items m)(key \<mapsto> \<lparr>item_value = VInt64 delta, expiration = 0\<rparr>)\<rparr>)"
proof -
  have "(case item_value it of VInt64 v \<Rightarrow> v | _ \<Rightarrow> 0) = 0"
    using assms(3) by (cases "item_value it") simp_all
  then show ?thesis
    using assms(1,2) by (simp add: MemoryStore_Increment_def)
qed

theorem C7_increment_non_int64_witness:
  "MemoryStore_Increment
     (snd (MemoryStore_Set (NewMemoryStore 60 :: unit MemoryStore) 1000 ''k'' (VString ''abc'') 500))
     1200 ''k'' 5 =
   ((5, None),
    (snd (MemoryStore_Set (NewMemoryStore 60 :: unit MemoryStore) 1000 ''k'' (VString ''abc'') 500))
      \<lparr>items := (items (snd (MemoryStore_Set (NewMemoryStore 60 :: unit MemoryStore) 1000 ''k'' (VString ''abc'') 500)))
                  (''k'' \<mapsto> \<lparr>item_value = VInt64 5, expiration = 0\<rparr>)\<rparr>)"
proof -
  let ?m1 = "snd (MemoryStore_Set (NewMemoryStore 60 :: unit MemoryStore) 1000 ''k'' (VString ''abc'') 500)"
  let ?it = "\<lparr>item_value = VString ''abc'' :: unit val, expiration = 1500\<rparr>"
  have stored: "items ?m1 ''k'' = Some ?it"
    by (simp add: items_Set word_sless_alt)
  have live: "\<not> isExpired ?it 1200"
    by (simp add: isExpired_def)
  have str: "\<forall>n. item_value ?it \<noteq> VInt64 n" by simp
  show ?thesis
    by (rule C7_increment_non_int64 [OF stored live str])
qed

section \<open>Frame and error results of the in-process store\<close>

text \<open>
  C8. \<open>Get\<close> and \<open>Has\<close> leave the store as it was, for every store, clock reading and
  key: in particular an expired item is reported absent and stays in the map.
\<close>

theorem C8_reads_keep_store:
  "snd (MemoryStore_Get m now key) = m \<and> snd (MemoryStore_Has m now key) = m"
  by (simp add: MemoryStore_Get_def MemoryStore_Has_def split: option.split)

lemma Delete_absent: "items m key = None \<Longrightarrow> MemoryStore_Delete m key = (None, m)"
  by (simp add: MemoryStore_Delete_def fun_upd_idem)

text \<open>
  C9. \<open>Set\<close>, \<open>Delete\<close>, \<open>Increment\<close>, \<open>Decrement\<close> and \<open>Clear\<close> return a nil
  error on every input. \<open>Delete\<close> is idempotent, and on an absent key it returns nil
  and leaves the store unchanged.
\<close>

theorem C9_infallible:
  "fst (MemoryStore_Set m now key v ttl) = None
 \<and> fst (MemoryStore_Delete m key) = None
 \<and> snd (fst (MemoryStore_Increment m now key delta)) = None
 \<and> snd (fst (MemoryStore_Decrement m now key delta)) = None
 \<and> fst (MemoryStore_Clear m) = None
 \<and> MemoryStore_Delete (snd (MemoryStore_Delete m key)) key = MemoryStore_Delete m key
 \<and> (items m key = None \<longrightarrow> MemoryStore_Delete m key = (None, m))"
  by (simp add: Delete_absent)
    (simp add: MemoryStore_Set_def MemoryStore_Delete_def MemoryStore_Increment_def
      MemoryStore_Decrement_def MemoryStore_Clear_def Let_def)

theorem C9_infallible_witness:
  "items (NewMemoryStore 60 :: unit MemoryStore) ''k'' = None
 \<and> MemoryStore_Delete (NewMemoryStore 60 :: unit MemoryStore) ''k'' = (None, NewMemoryStore 60)"
proof -
  have absent: "items (NewMemoryStore 60 :: unit MemoryStore) ''k'' = None"
    by (simp add: NewMemoryStore_def)
  show ?thesis
    using C9_infallible [of "NewMemoryStore 60 :: unit MemoryStore" _ "''k''"] absent by blast
qed

section \<open>Shutdown\<close>

text \<open>
  C10, as stated, fails: after a first \<open>Close\<close> the reaper has returned, and a second
  \<open>Close\<close> on the same store never returns.
\<close>

theorem C10_second_close_blocks:
  "MemoryStore_Close (NewMemoryStore 1000 :: unit MemoryStore)
     = Some (None, \<lparr>items = Map.empty, cleanup = 1000, reaper = Returned, stop_received = 1\<rparr>)
 \<and> MemoryStore_Close
      (\<lparr>items = Map.empty, cleanup = 1000, reaper = Returned, stop_received = 1\<rparr> :: unit MemoryStore)
     = None"
  by (simp add: MemoryStore_Close_def NewMemoryStore_def word_sless_alt)

text \<open>
  C10, amended. While the reaper is running, \<open>Close\<close> returns nil, the reaper has
  received exactly one more value from \<open>stop\<close> and has returned, and the map is
  untouched; a further \<open>Close\<close> on the resulting store does not return.
\<close>

theorem C10_close_once:
  assumes "reaper m = AtSelect"
  shows "\<exists>m'. MemoryStore_Close m = Some (None, m')
            \<and> stop_received m' = stop_received m + 1
            \<and> reaper m' = Returned
            \<and> items m' = items m
            \<and> MemoryStore_Close m' = None"
  using assms by (simp add: MemoryStore_Close_def)

theorem C10_close_once_witness:
  "reaper (NewMemoryStore 1000 :: unit MemoryStore) = AtSelect
 \<and> (\<exists>m'. MemoryStore_Close (NewMemoryStore 1000 :: unit MemoryStore) = Some (None, m')
            \<and> stop_received m' = stop_received (NewMemoryStore 1000 :: unit MemoryStore) + 1
            \<and> reaper m' = Returned
            \<and> items m' = items (NewMemoryStore 1000 :: unit MemoryStore)
            \<and> MemoryStore_Close m' = None)"
proof -
  have running: "reaper (NewMemoryStore 1000 :: unit MemoryStore) = AtSelect"
    by (simp add: NewMemoryStore_def word_sless_alt)
  from running C10_close_once [OF running] show ?thesis by blast
qed

section \<open>The facade on the in-process backend\<close>

lemma SetJSON_passes_value:
  "Cache_SetJSON c s now key v = store_Set (store c) s now key v (defaultTTL c)"
  by (simp add: Cache_SetJSON_def Cache_SetWithTTL_def)

lemma SetJSON_memory:
  "Cache_SetJSON (New_memory ttl) m now key v = MemoryStore_Set m now key v ttl"
  by (simp add: SetJSON_passes_value New_memory_def memory_Store_def)

lemma Get_memory:
  "Cache_Get (New_memory ttl) m now key = MemoryStore_Get m now key"
  by (simp add: Cache_Get_def New_memory_def memory_Store_def)

lemma Get_Some:
  "items m key = Some it \<Longrightarrow>
     MemoryStore_Get m now key =
       (if isExpired it now then (Inl ErrNotFound, m) else (Inr (item_value it), m))"
  by (simp add: MemoryStore_Get_def)

text \<open>
  C4. What the code does: \<open>SetJSON\<close> hands the caller's value to the store's \<open>Set\<close> as it
  is, with the default TTL, and never encodes it. On the in-process backend the map then
  holds the typed value itself: after \<open>SetJSON("user:123", u)\<close> for a struct \<open>u\<close>, with a
  default TTL of one hour at clock reading 1000, the item's value is \<open>u\<close>.
\<close>

theorem C4_SetJSON_stores_typed_value:
  "Cache_SetJSON c s now key v = store_Set (store c) s now key v (defaultTTL c)
 \<and> items (snd (Cache_SetJSON (New_memory 3600000000000) (NewMemoryStore 600000000000)
                  1000 ''user:123'' (VOther u))) ''user:123''
     = Some \<lparr>item_value = VOther u, expiration = 3600000001000\<rparr>"
  by (simp add: SetJSON_passes_value [symmetric] SetJSON_memory items_Set word_sless_alt)

lemma GetJSON_memory_string:
  assumes "items m key = Some it" and "\<not> isExpired it now" and "item_value it = VString str"
  shows "fst (Cache_GetJSON js (New_memory ttl) m now key dest) = Unmarshal js str dest"
  using assms by (simp add: Cache_GetJSON_def Get_memory Get_Some)

lemma GetJSON_memory_other:
  assumes "items m key = Some it" and "\<not> isExpired it now" and "item_value it = VOther x"
  shows "fst (Cache_GetJSON js (New_memory ttl) m now key dest) =
           (case Marshal js (VOther x) of
              Inl err \<Rightarrow> (Some err, dest)
            | Inr data \<Rightarrow> Unmarshal js data dest)"
  using assms by (simp add: Cache_GetJSON_def Get_memory Get_Some split: sum.split)

text \<open>
  C5. What the code does for a string: after \<open>SetJSON("k", "hello")\<close> on the in-process
  backend, \<open>GetJSON("k", dest)\<close> before the item expires gives the stored text
  \<open>hello\<close> itself to \<open>json.Unmarshal\<close>; \<open>json.Marshal\<close> is never applied to it. Its
  result is whatever the decoder makes of the bytes \<open>hello\<close>, which are not the JSON
  encoding of the string.
\<close>

theorem C5_string_not_round_tripped:
  "fst (Cache_GetJSON js (New_memory 3600000000000)
          (snd (Cache_SetJSON (New_memory 3600000000000) (NewMemoryStore 600000000000)
                  1000 ''k'' (VString ''hello'')))
          2000 ''k'' dest)
     = Unmarshal js ''hello'' dest"
proof (rule GetJSON_memory_string)
  show "items (snd (Cache_SetJSON (New_memory 3600000000000) (NewMemoryStore 600000000000)
                  1000 ''k'' (VString ''hello''))) ''k''
          = Some \<lparr>item_value = VString ''hello'', expiration = 3600000001000\<rparr>"
    by (simp add: SetJSON_memory items_Set word_sless_alt)
  show "\<not> isExpired \<lparr>item_value = VString ''hello'', expiration = 3600000001000\<rparr> 2000"
    by (simp add: isExpired_def)
  show "item_value \<lparr>item_value = VString ''hello'', expiration = 3600000001000\<rparr> = VString ''hello''"
    by simp
qed

section \<open>GetOrSet\<close>

text \<open>
  C6. On a hit, \<open>GetOrSet\<close> returns the cached value with a nil error and the fetcher's
  state is untouched, whatever the fetcher is. On a miss (any error of \<open>Get\<close>) with a
  fetcher that returns a value, \<open>GetOrSet\<close> returns that value with a nil error, for
  every backend; when the backend's \<open>Set\<close> fails, its error is dropped and the value
  is still returned.
\<close>

theorem C6_GetOrSet:
  "(fst (Cache_Get c s now_get key) = Inr cached \<longrightarrow>
      Cache_GetOrSet c s now_get now_set key fetcher ttl w
        = (Inr cached, snd (Cache_Get c s now_get key), w))
 \<and> (fst (Cache_Get c s now_get key) = Inl e \<and> fst (fetcher w) = Inr v \<longrightarrow>
      fst (Cache_GetOrSet c s now_get now_set key fetcher ttl w) = Inr v)
 \<and> (fst (Cache_Get c s now_get key) = Inl e \<and> fst (fetcher w) = Inr v
      \<and> fst (Cache_SetWithTTL c (snd (Cache_Get c s now_get key)) now_set key v ttl) = Some e' \<longrightarrow>
      Cache_GetOrSet c s now_get now_set key fetcher ttl w
        = (Inr v, snd (Cache_SetWithTTL c (snd (Cache_Get c s now_get key)) now_set key v ttl),
           snd (fetcher w)))"
proof (intro conjI impI)
  assume "fst (Cache_Get c s now_get key) = Inr cached"
  then show "Cache_GetOrSet c s now_get now_set key fetcher ttl w
        = (Inr cached, snd (Cache_Get c s now_get key), w)"
    by (cases "Cache_Get c s now_get key") (simp add: Cache_GetOrSet_def)
next
  assume "fst (Cache_Get c s now_get key) = Inl e \<and> fst (fetcher w) = Inr v"
  then show "fst (Cache_GetOrSet c s now_get now_set key fetcher ttl w) = Inr v"
    by (cases "Cache_Get c s now_get key"; cases "fetcher w")
      (simp add: Cache_GetOrSet_def split: prod.split option.split)
next
  assume "fst (Cache_Get c s now_get key) = Inl e \<and> fst (fetcher w) = Inr v
      \<and> fst (Cache_SetWithTTL c (snd (Cache_Get c s now_get key)) now_set key v ttl) = Some e'"
  then show "Cache_GetOrSet c s now_get now_set key fetcher ttl w
        = (Inr v, snd (Cache_SetWithTTL c (snd (Cache_Get c s now_get key)) now_set key v ttl),
           snd (fetcher w))"
    by (cases "Cache_Get c s now_get key"; cases "fetcher w";
        cases "Cache_SetWithTTL c (snd (Cache_Get c s now_get key)) now_set key v ttl")
      (simp add: Cache_GetOrSet_def)
qed

theorem C6_GetOrSet_witness:
  "Cache_GetOrSet (New_memory 3600)
      (snd (MemoryStore_Set (NewMemoryStore 60 :: unit MemoryStore) 1000 ''lazy_key''
              (VString ''fetched_value'') 3600))
      1200 1201 ''lazy_key'' (\<lambda>n::nat. (Inr (VString ''other''), Suc n)) 3600 1
     = (Inr (VString ''fetched_value''),
        snd (MemoryStore_Set (NewMemoryStore 60 :: unit MemoryStore) 1000 ''lazy_key''
              (VString ''fetched_value'') 3600),
        1)
 \<and> fst (Cache_GetOrSet (New_memory 3600) (NewMemoryStore 60 :: unit MemoryStore)
          1000 1001 ''lazy_key'' (\<lambda>n::nat. (Inr (VString ''fetched_value''), Suc n)) 3600 0)
     = Inr (VString ''fetched_value'')
 \<and> Cache_GetOrSet
      \<lparr>store = memory_Store\<lparr>store_Set := \<lambda>s now k v ttl. (Some (ErrExternal ''write failed''), s)\<rparr>,
       defaultTTL = 3600\<rparr>
      (NewMemoryStore 60 :: unit MemoryStore)
      1000 1001 ''lazy_key'' (\<lambda>n::nat. (Inr (VString ''fetched_value''), Suc n)) 3600 0
     = (Inr (VString ''fetched_value''), NewMemoryStore 60, 1)"
proof -
  let ?c = "New_memory 3600 :: (unit MemoryStore, unit) Cache"
  let ?bad = "\<lparr>store = memory_Store\<lparr>store_Set := \<lambda>s now k v ttl. (Some (ErrExternal ''write failed''), s)\<rparr>,
       defaultTTL = 3600\<rparr> :: (unit MemoryStore, unit) Cache"
  let ?s0 = "NewMemoryStore 60 :: unit MemoryStore"
  let ?s1 = "snd (MemoryStore_Set ?s0 1000 ''lazy_key'' (VString ''fetched_value'') 3600)"
  let ?f = "\<lambda>n::nat. (Inr (VString ''fetched_value'') :: error + unit val, Suc n)"
  let ?g = "\<lambda>n::nat. (Inr (VString ''other'') :: error + unit val, Suc n)"
  have empty: "items ?s0 ''lazy_key'' = None"
    by (simp add: NewMemoryStore_def)
  have stored: "items ?s1 ''lazy_key''
      = Some \<lparr>item_value = VString ''fetched_value'', expiration = 4600\<rparr>"
    by (simp add: items_Set word_sless_alt)
  have live: "\<not> isExpired \<lparr>item_value = VString ''fetched_value'' :: unit val, expiration = 4600\<rparr> 1200"
    by (simp add: isExpired_def)
  have hit: "Cache_Get ?c ?s1 1200 ''lazy_key'' = (Inr (VString ''fetched_value''), ?s1)"
    using live by (simp add: Get_memory Get_Some [OF stored])
  have miss: "Cache_Get ?c ?s0 1000 ''lazy_key'' = (Inl ErrNotFound, ?s0)"
    using empty by (simp add: Get_memory MemoryStore_Get_def)
  have miss': "Cache_Get ?bad ?s0 1000 ''lazy_key'' = (Inl ErrNotFound, ?s0)"
    using empty by (simp add: Cache_Get_def memory_Store_def MemoryStore_Get_def)
  have fails: "Cache_SetWithTTL ?bad ?s0 1001 ''lazy_key'' (VString ''fetched_value'') 3600
      = (Some (ErrExternal ''write failed''), ?s0)"
    by (simp add: Cache_SetWithTTL_def)
  have 1: "Cache_GetOrSet ?c ?s1 1200 1201 ''lazy_key'' ?g 3600 1
      = (Inr (VString ''fetched_value''), ?s1, 1)"
    using C6_GetOrSet [of ?c ?s1 1200 "''lazy_key''" "VString ''fetched_value''" 1201 ?g 3600 1]
      hit by simp
  have 2: "fst (Cache_GetOrSet ?c ?s0 1000 1001 ''lazy_key'' ?f 3600 0)
      = Inr (VString ''fetched_value'')"
    using C6_GetOrSet [of ?c ?s0 1000 "''lazy_key''" _ 1001 ?f 3600 0 ErrNotFound
        "VString ''fetched_value''"] miss by simp
  have 3: "Cache_GetOrSet ?bad ?s0 1000 1001 ''lazy_key'' ?f 3600 0
      = (Inr (VString ''fetched_value''), ?s0, 1)"
    using C6_GetOrSet [of ?bad ?s0 1000 "''lazy_key''" _ 1001 ?f 3600 0 ErrNotFound
        "VString ''fetched_value''" "ErrExternal ''write failed''"] miss' fails by simp
  from 1 2 3 show ?thesis by simp
qed

end
